theory Spec2Isabelle
  imports Main "HOL-Library.Word"
begin

section \<open>Errors\<close>

text \<open>
  The program builds its own errors with \<^verbatim>\<open>errors.New(msg)\<close> and
  \<^verbatim>\<open>errors.Wrap(cause, msg)\<close>; every other error comes out of a library call
  (the resolver, the dialer, the SMTP client) and is opaque to the program.
  A Go \<^verbatim>\<open>error\<close> result is an \<open>error option\<close>: \<open>None\<close> is \<^verbatim>\<open>nil\<close>.
\<close>

datatype error = Lib string | New string | Wrap error string

section \<open>extractDomain\<close>

text \<open>
  \<^verbatim>\<open>strings.Split(s, "@")\<close>: the pieces of \<open>s\<close> between the occurrences of the one-byte
  separator, in order; a string without the separator is returned as its only piece.
\<close>

fun split :: "char \<Rightarrow> string \<Rightarrow> string list" where
  "split sep [] = [[]]"
| "split sep (c # cs) =
     (if c = sep then [] # split sep cs
      else (c # hd (split sep cs)) # tl (split sep cs))"

definition extractDomain :: "string \<Rightarrow> error + string" where
  "extractDomain email =
     (let parts = split CHR ''@'' email in
      if length parts \<noteq> 2 then Inl (New ''invalid email address'')
      else Inr (parts ! 1))"

section \<open>lookupMX\<close>

text \<open>
  A mail-exchange record as \<^verbatim>\<open>net.MX\<close> has it. The resolver is a parameter: what
  \<^verbatim>\<open>dnsResolver.LookupMX\<close> returns for a domain, records and error side by side as in Go.
\<close>

record MX =
  Host :: string
  Pref :: "16 word"

type_synonym resolver = "string \<Rightarrow> MX list \<times> error option"

definition lookupMX :: "resolver \<Rightarrow> string \<Rightarrow> string list \<times> error option" where
  "lookupMX LookupMX domain =
     (case LookupMX domain of
        (mxRecords, err) \<Rightarrow>
          if err \<noteq> None then ([], err)
          else (foldl (\<lambda>servers mx. servers @ [Host mx]) [] mxRecords, None))"



section \<open>checkMailbox\<close>

text \<open>
  The network is a parameter: for each library call the program makes, what that call
  returns. A connection is named by the position of its candidate in the server list, so
  that a host listed twice gets two connections. \<open>dial\<close> and \<open>newClient\<close> return the
  error of \<^verbatim>\<open>defaultDialer.Dial\<close> and \<^verbatim>\<open>smtp.NewClient\<close> (which hands back a nil client
  with its error); \<open>readResponse\<close> returns the code and the error of
  \<^verbatim>\<open>Text.ReadResponse(25)\<close>.
\<close>

record network =
  dial :: "nat \<Rightarrow> string \<Rightarrow> error option"
  newClient :: "nat \<Rightarrow> string \<Rightarrow> error option"
  hello :: "nat \<Rightarrow> string \<Rightarrow> error option"
  mail :: "nat \<Rightarrow> string \<Rightarrow> error option"
  cmd :: "nat \<Rightarrow> string \<Rightarrow> error option"
  readResponse :: "nat \<Rightarrow> int \<times> error option"
  close :: "nat \<Rightarrow> error option"
  quit :: "nat \<Rightarrow> error option"

text \<open>The library calls the program makes, in the order it makes them.\<close>

datatype call =
    Dial nat string
  | NewClient nat string
  | Hello nat string
  | Mail nat string
  | Cmd nat string
  | ReadResponse nat
  | Close nat
  | Quit nat

text \<open>
  The loop over the candidates (lines 62 to 84). \<open>smtpClient\<close> is the variable of that
  name: \<open>None\<close> is the nil pointer, \<open>Some i\<close> the client on connection \<open>i\<close>. A failed dial
  leaves it alone (\<^verbatim>\<open>continue\<close> before the assignment); \<^verbatim>\<open>smtp.NewClient\<close> assigns it
  whether it succeeds or not; the loop has no \<^verbatim>\<open>break\<close>.
\<close>

fun selectClient ::
  "network \<Rightarrow> nat \<Rightarrow> string list \<Rightarrow> nat option \<Rightarrow> call list \<Rightarrow> nat option \<times> call list" where
  "selectClient nw i [] smtpClient tr = (smtpClient, tr)"
| "selectClient nw i (mx # servers) smtpClient tr =
     (case dial nw i (mx @ '':25'') of
        Some err \<Rightarrow> selectClient nw (Suc i) servers smtpClient (tr @ [Dial i (mx @ '':25'')])
      | None \<Rightarrow>
          (case newClient nw i mx of
             Some err \<Rightarrow>
               selectClient nw (Suc i) servers None
                 (tr @ [Dial i (mx @ '':25''), NewClient i mx])
           | None \<Rightarrow>
               selectClient nw (Suc i) servers (Some i)
                 (tr @ [Dial i (mx @ '':25''), NewClient i mx])))"

text \<open>What the function returns once the reply has been read (lines 116 to 136).\<close>

definition replyResult :: "int \<Rightarrow> error option \<Rightarrow> error option" where
  "replyResult code err =
     (if code = 554 then Some (New ''appears our IP is blacklisted'')
      else if code = 550 then
        Some (New ''email does not seem to exist (or server blocks detection)'')
      else if code = 250 then None
      else (case err of
              Some e \<Rightarrow> Some (Wrap e ''smtp response error'')
            | None \<Rightarrow> None))"

text \<open>
  The commands on the selected client (lines 96 to 114), with the calls made. The probe
  is written with \<^verbatim>\<open>Text.Cmd\<close> and its reply read with \<^verbatim>\<open>Text.ReadResponse\<close>;
  \<^verbatim>\<open>StartResponse\<close> and \<^verbatim>\<open>EndResponse\<close> around the read only order the pipeline,
  and the log lines return nothing: neither is a call of the trace.
\<close>

definition runSession ::
  "network \<Rightarrow> nat \<Rightarrow> string \<Rightarrow> string \<Rightarrow> string \<Rightarrow> error option \<times> call list" where
  "runSession nw c fromDomain fromEmail checkEmail =
     (case hello nw c fromDomain of
        Some err \<Rightarrow> (Some (Wrap err ''could not HELO smtp server''), [Hello c fromDomain])
      | None \<Rightarrow>
          (case mail nw c fromEmail of
             Some err \<Rightarrow>
               (Some (Wrap err ''could not MAIL FROM smtp server''),
                [Hello c fromDomain, Mail c fromEmail])
           | None \<Rightarrow>
               (case cmd nw c (''RCPT TO:<'' @ checkEmail @ ''>'') of
                  Some err \<Rightarrow>
                    (Some (Wrap err ''could not MAIL FROM smtp server''),
                     [Hello c fromDomain, Mail c fromEmail,
                      Cmd c (''RCPT TO:<'' @ checkEmail @ ''>'')])
                | None \<Rightarrow>
                    (case readResponse nw c of
                       (code, err) \<Rightarrow>
                         (replyResult code err,
                          [Hello c fromDomain, Mail c fromEmail,
                           Cmd c (''RCPT TO:<'' @ checkEmail @ ''>''),
                           ReadResponse c])))))"

text \<open>
  The deferred function (lines 91 to 94) runs after the result is fixed: it calls
  \<^verbatim>\<open>Close\<close>, then \<^verbatim>\<open>Quit\<close>, and drops what each returns.
\<close>

definition deferred :: "network \<Rightarrow> nat \<Rightarrow> call list" where
  "deferred nw c = (let _ = close nw c; _ = quit nw c in [Close c, Quit c])"

definition checkMailbox ::
  "network \<Rightarrow> string \<Rightarrow> string \<Rightarrow> string \<Rightarrow> string list \<Rightarrow> error option \<times> call list" where
  "checkMailbox nw fromDomain fromEmail checkEmail servers =
     (case selectClient nw 0 servers None [] of
        (None, tr) \<Rightarrow> (Some (New ''no working mail servers could be found''), tr)
      | (Some c, tr) \<Rightarrow>
          (case runSession nw c fromDomain fromEmail checkEmail of
             (err, cmds) \<Rightarrow> (err, tr @ cmds @ deferred nw c)))"

section \<open>Reading a trace\<close>

text \<open>
  The calls that set a connection up (the loop makes no other), the calls of the session
  proper, and the connections on which \<^verbatim>\<open>Close\<close> and \<^verbatim>\<open>Quit\<close> were called, in order.
\<close>

fun setupCall :: "call \<Rightarrow> bool" where
  "setupCall (Dial i a) = True"
| "setupCall (NewClient i h) = True"
| "setupCall x = False"

definition sessionCalls :: "call list \<Rightarrow> call list" where
  "sessionCalls tr = filter (\<lambda>x. \<not> setupCall x) tr"

fun closes :: "call list \<Rightarrow> nat list" where
  "closes [] = []"
| "closes (Close k # tr) = k # closes tr"
| "closes (x # tr) = closes tr"

fun quits :: "call list \<Rightarrow> nat list" where
  "quits [] = []"
| "quits (Quit k # tr) = k # quits tr"
| "quits (x # tr) = quits tr"

text \<open>
  The commands that reach a server. \<^verbatim>\<open>Hello\<close>, \<^verbatim>\<open>Mail\<close>, \<^verbatim>\<open>Cmd\<close> and \<^verbatim>\<open>Quit\<close>
  each write a line on the connection of their client; once \<^verbatim>\<open>Close\<close> has been called
  on a connection, a write on it fails (\<^verbatim>\<open>use of closed network connection\<close>) and
  nothing is sent. \<open>closed\<close> holds the connections closed so far.
\<close>

fun written :: "nat list \<Rightarrow> call list \<Rightarrow> call list" where
  "written closed [] = []"
| "written closed (Close k # tr) = written (k # closed) tr"
| "written closed (Hello k d # tr) =
     (if k \<in> set closed then written closed tr else Hello k d # written closed tr)"
| "written closed (Mail k a # tr) =
     (if k \<in> set closed then written closed tr else Mail k a # written closed tr)"
| "written closed (Cmd k l # tr) =
     (if k \<in> set closed then written closed tr else Cmd k l # written closed tr)"
| "written closed (Quit k # tr) =
     (if k \<in> set closed then written closed tr else Quit k # written closed tr)"
| "written closed (x # tr) = written closed tr"

text \<open>
  A network on which every call succeeds and the probe is answered with the given code
  and error; the concrete runs below change one answer of it at a time.
\<close>

definition accepting :: "int \<times> error option \<Rightarrow> network" where
  "accepting reply =
     \<lparr>dial = (\<lambda>i a. None), newClient = (\<lambda>i h. None), hello = (\<lambda>c d. None),
      mail = (\<lambda>c a. None), cmd = (\<lambda>c l. None), readResponse = (\<lambda>c. reply),
      close = (\<lambda>c. None), quit = (\<lambda>c. None)\<rparr>"

section \<open>Properties of extractDomain\<close>

lemma split_not_Nil: "split sep s \<noteq> []"
  by (induction s) auto

lemma length_split: "length (split sep s) = Suc (count_list s sep)"
proof (induction s)
  case Nil
  show ?case by simp
next
  case (Cons c cs)
  have "length (tl (split sep cs)) = count_list cs sep"
    using Cons.IH by simp
  with Cons.IH show ?case by simp
qed

lemma split_without_sep: "sep \<notin> set s \<Longrightarrow> split sep s = [s]"
  by (induction s) auto

lemma split_two:
  "count_list s sep = 1 \<Longrightarrow>
     split sep s = [takeWhile (\<lambda>c. c \<noteq> sep) s, tl (dropWhile (\<lambda>c. c \<noteq> sep) s)]"
proof (induction s)
  case Nil
  then show ?case by simp
next
  case (Cons c cs)
  show ?case
  proof (cases "c = sep")
    case True
    with Cons.prems have "count_list cs sep = 0" by simp
    then have "sep \<notin> set cs" by (simp add: count_list_0_iff)
    with True show ?thesis by (simp add: split_without_sep)
  next
    case False
    with Cons.prems have "count_list cs sep = 1" by simp
    from Cons.IH [OF this] False show ?thesis by simp
  qed
qed

lemma around_sep:
  "count_list s sep = 1 \<Longrightarrow>
     s = takeWhile (\<lambda>c. c \<noteq> sep) s @ sep # tl (dropWhile (\<lambda>c. c \<noteq> sep) s)"
proof -
  assume one: "count_list s sep = 1"
  then have "sep \<in> set s"
    using count_list_0_iff [of s sep] by auto
  then have ne: "dropWhile (\<lambda>c. c \<noteq> sep) s \<noteq> []"
    by simp
  then have "hd (dropWhile (\<lambda>c. c \<noteq> sep) s) = sep"
    using hd_dropWhile [of "\<lambda>c. c \<noteq> sep" s] by simp
  with ne have "dropWhile (\<lambda>c. c \<noteq> sep) s = sep # tl (dropWhile (\<lambda>c. c \<noteq> sep) s)"
    by (cases "dropWhile (\<lambda>c. c \<noteq> sep) s") simp_all
  then show ?thesis
    using takeWhile_dropWhile_id [of "\<lambda>c. c \<noteq> sep" s] by simp
qed

lemma extractDomain_cases:
  "extractDomain email =
     (if count_list email CHR ''@'' = 1
      then Inr (tl (dropWhile (\<lambda>c. c \<noteq> CHR ''@'') email))
      else Inl (New ''invalid email address''))"
  by (simp add: extractDomain_def Let_def length_split split_two)

text \<open>
  C5. An address with exactly one \<open>@\<close> yields what follows the \<open>@\<close>; an address with
  none, or with two or more, yields the error \<^verbatim>\<open>invalid email address\<close>. The function
  is a pure function of the address: it makes no call and touches no state.
\<close>

theorem extractDomain_one_separator:
  "extractDomain email =
     (if count_list email CHR ''@'' = 1
      then Inr (tl (dropWhile (\<lambda>c. c \<noteq> CHR ''@'') email))
      else Inl (New ''invalid email address''))"
  by (rule extractDomain_cases)

theorem extractDomain_one_separator_witness:
  "extractDomain ''user@example.com'' = Inr ''example.com''
   \<and> extractDomain ''example.com'' = Inl (New ''invalid email address'')
   \<and> extractDomain ''a@b@example.com'' = Inl (New ''invalid email address'')"
  using extractDomain_one_separator [of "''user@example.com''"]
    extractDomain_one_separator [of "''example.com''"]
    extractDomain_one_separator [of "''a@b@example.com''"]
  by simp

text \<open>
  C6, as stated: every accepted address has a non-empty local part and a non-empty
  domain. It fails: \<open>user@\<close> is accepted with the empty domain, and \<open>@example.com\<close> with
  the empty local part.
\<close>

theorem extractDomain_empty_parts_counterexample:
  "extractDomain ''user@'' = Inr [] \<and> extractDomain ''@example.com'' = Inr ''example.com''"
  by (simp add: extractDomain_def)

text \<open>
  C6, amended: every accepted address has exactly one \<open>@\<close>, and is its local part, the
  \<open>@\<close> and the returned domain, neither of which holds an \<open>@\<close>; either may be empty.
\<close>

theorem extractDomain_accepted:
  assumes "extractDomain email = Inr domain"
  shows "count_list email CHR ''@'' = 1
       \<and> email = takeWhile (\<lambda>c. c \<noteq> CHR ''@'') email @ CHR ''@'' # domain
       \<and> CHR ''@'' \<notin> set (takeWhile (\<lambda>c. c \<noteq> CHR ''@'') email)
       \<and> CHR ''@'' \<notin> set domain"
proof -
  from assms have one: "count_list email CHR ''@'' = 1"
    by (simp add: extractDomain_cases split: if_splits)
  with assms have dom: "domain = tl (dropWhile (\<lambda>c. c \<noteq> CHR ''@'') email)"
    by (simp add: extractDomain_cases)
  have shape: "email = takeWhile (\<lambda>c. c \<noteq> CHR ''@'') email @ CHR ''@'' # domain"
    using around_sep [OF one] dom by simp
  have local: "CHR ''@'' \<notin> set (takeWhile (\<lambda>c. c \<noteq> CHR ''@'') email)"
    using set_takeWhileD [of "CHR ''@''" "\<lambda>c. c \<noteq> CHR ''@''" email] by blast
  have "count_list email CHR ''@''
          = count_list (takeWhile (\<lambda>c. c \<noteq> CHR ''@'') email) CHR ''@''
            + count_list (CHR ''@'' # domain) CHR ''@''"
    using shape
      count_list_append [of "takeWhile (\<lambda>c. c \<noteq> CHR ''@'') email" "CHR ''@'' # domain" "CHR ''@''"]
    by simp
  with one have "count_list domain CHR ''@'' = 0"
    by simp
  then have "CHR ''@'' \<notin> set domain"
    by (simp add: count_list_0_iff)
  with one shape local show ?thesis by blast
qed

theorem extractDomain_accepted_witness:
  "extractDomain ''user@example.com'' = Inr ''example.com''
   \<and> count_list ''user@example.com'' CHR ''@'' = 1
   \<and> ''user@example.com'' = ''user'' @ CHR ''@'' # ''example.com''"
proof -
  have h: "extractDomain ''user@example.com'' = Inr ''example.com''"
    by (simp add: extractDomain_def)
  show ?thesis
    using h extractDomain_accepted [OF h] by simp
qed

section \<open>Properties of lookupMX\<close>

lemma collect_hosts: "foldl (\<lambda>servers mx. servers @ [Host mx]) acc mxRecords = acc @ map Host mxRecords"
  by (induction mxRecords arbitrary: acc) simp_all

lemma lookupMX_hosts:
  "LookupMX domain = (mxRecords, None) \<Longrightarrow> lookupMX LookupMX domain = (map Host mxRecords, None)"
  by (simp add: lookupMX_def collect_hosts)




section \<open>Properties of checkMailbox\<close>

subsection \<open>The loop\<close>

lemma selectClient_trace:
  "snd (selectClient nw i servers sel tr) = tr @ snd (selectClient nw i servers sel [])"
proof (induction servers arbitrary: i sel tr)
  case Nil
  show ?case by simp
next
  case (Cons mx servers)
  note IH = Cons.IH
  show ?case
    by (simp split: option.split) (metis IH append.assoc)
qed

lemma selectClient_setup:
  "\<forall>x \<in> set (snd (selectClient nw i servers sel [])). setupCall x"
proof (induction servers arbitrary: i sel)
  case Nil
  show ?case by simp
next
  case (Cons mx servers)
  show ?case
    using Cons.IH
      selectClient_trace [of nw "Suc i" servers _ "[Dial i (mx @ '':25'')]"]
      selectClient_trace [of nw "Suc i" servers _ "[Dial i (mx @ '':25''), NewClient i mx]"]
    by (auto split: option.split)
qed

lemma selected_setup:
  "selectClient nw 0 servers None [] = (sel, tr) \<Longrightarrow> \<forall>x \<in> set tr. setupCall x"
  using selectClient_setup [of nw 0 servers None] by simp

lemma selectClient_ignores_release:
  "selectClient (nw\<lparr>close := cl, quit := qu\<rparr>) i servers sel tr = selectClient nw i servers sel tr"
  by (induction servers arbitrary: i sel tr) (simp_all split: option.split)

subsection \<open>Traces\<close>

lemma closes_append: "closes (xs @ ys) = closes xs @ closes ys"
  by (induction xs rule: closes.induct) auto

lemma quits_append: "quits (xs @ ys) = quits xs @ quits ys"
  by (induction xs rule: quits.induct) auto

lemma closes_setup: "\<forall>x \<in> set tr. setupCall x \<Longrightarrow> closes tr = []"
  by (induction tr rule: closes.induct) auto

lemma quits_setup: "\<forall>x \<in> set tr. setupCall x \<Longrightarrow> quits tr = []"
  by (induction tr rule: quits.induct) auto

lemma sessionCalls_setup: "\<forall>x \<in> set tr. setupCall x \<Longrightarrow> sessionCalls (tr @ cs) = sessionCalls cs"
  by (simp add: sessionCalls_def)

lemma runSession_releases_nothing:
  "closes (snd (runSession nw c fd fe ce)) = [] \<and> quits (snd (runSession nw c fd fe ce)) = []"
  by (simp add: runSession_def split: option.split prod.split)

lemma runSession_ignores_release:
  "runSession (nw\<lparr>close := cl, quit := qu\<rparr>) c fd fe ce = runSession nw c fd fe ce"
  by (simp add: runSession_def split: option.split)

lemma checkMailbox_selected:
  "selectClient nw 0 servers None [] = (Some c, tr) \<Longrightarrow>
     checkMailbox nw fd fe ce servers
       = (fst (runSession nw c fd fe ce), tr @ snd (runSession nw c fd fe ce) @ [Close c, Quit c])"
  by (simp add: checkMailbox_def deferred_def split: prod.split)

subsection \<open>No candidate\<close>

text \<open>
  C10. With the empty server list the loop body never runs: the function returns the
  error \<^verbatim>\<open>no working mail servers could be found\<close> and has made no call at all, neither
  a dial nor a command.
\<close>

theorem checkMailbox_no_candidate:
  "checkMailbox nw fromDomain fromEmail checkEmail []
     = (Some (New ''no working mail servers could be found''), [])"
  by (simp add: checkMailbox_def)

theorem checkMailbox_no_candidate_witness:
  "checkMailbox (accepting (250, None)) ''ironpeak.be'' ''test@ironpeak.be''
       ''user@example.com'' []
     = (Some (New ''no working mail servers could be found''), [])"
  using checkMailbox_no_candidate
    [of "accepting (250, None)" "''ironpeak.be''" "''test@ironpeak.be''" "''user@example.com''"]
  by simp

subsection \<open>Release of the selected client\<close>

text \<open>
  Once the loop has selected a client, however the session ends (the result is whatever
  the session produced: success, a failed handshake, a failed sender declaration or a
  failed probe), \<^verbatim>\<open>Close\<close> is called exactly once and on the selected connection, then
  \<^verbatim>\<open>Quit\<close> exactly once, as the last two calls; and what \<^verbatim>\<open>Close\<close> and \<^verbatim>\<open>Quit\<close>
  return changes neither the result nor the calls made.
\<close>

lemma checkMailbox_release_calls:
  assumes "selectClient nw 0 servers None [] = (Some c, tr)"
  shows "closes (snd (checkMailbox nw fromDomain fromEmail checkEmail servers)) = [c]
       \<and> quits (snd (checkMailbox nw fromDomain fromEmail checkEmail servers)) = [c]
       \<and> snd (checkMailbox nw fromDomain fromEmail checkEmail servers)
           = tr @ snd (runSession nw c fromDomain fromEmail checkEmail) @ [Close c, Quit c]
       \<and> fst (checkMailbox nw fromDomain fromEmail checkEmail servers)
           = fst (runSession nw c fromDomain fromEmail checkEmail)
       \<and> checkMailbox (nw\<lparr>close := cl, quit := qu\<rparr>) fromDomain fromEmail checkEmail servers
           = checkMailbox nw fromDomain fromEmail checkEmail servers"
proof -
  have tr_setup: "\<forall>x \<in> set tr. setupCall x"
    using selected_setup [OF assms] .
  have sel': "selectClient (nw\<lparr>close := cl, quit := qu\<rparr>) 0 servers None [] = (Some c, tr)"
    using assms by (simp add: selectClient_ignores_release)
  have run: "checkMailbox nw fromDomain fromEmail checkEmail servers
       = (fst (runSession nw c fromDomain fromEmail checkEmail),
          tr @ snd (runSession nw c fromDomain fromEmail checkEmail) @ [Close c, Quit c])"
    using checkMailbox_selected [OF assms] .
  have run': "checkMailbox (nw\<lparr>close := cl, quit := qu\<rparr>) fromDomain fromEmail checkEmail servers
       = (fst (runSession nw c fromDomain fromEmail checkEmail),
          tr @ snd (runSession nw c fromDomain fromEmail checkEmail) @ [Close c, Quit c])"
    using checkMailbox_selected [OF sel'] by (simp add: runSession_ignores_release)
  show ?thesis
    using tr_setup runSession_releases_nothing [of nw c fromDomain fromEmail checkEmail]
    by (simp add: run run' closes_append quits_append closes_setup quits_setup)
qed

text \<open>
  The order of the two calls decides what reaches the server: \<^verbatim>\<open>Quit\<close> comes after
  \<^verbatim>\<open>Close\<close>, so its line is written on a closed connection. On every path on which a
  client was selected, the commands that reach the server are those of the session, and
  no \<^verbatim>\<open>QUIT\<close> is among them. Had \<^verbatim>\<open>Quit\<close> come first, it would have been written.
\<close>

lemma written_setup:
  "\<forall>x \<in> set tr. setupCall x \<Longrightarrow> written closed (tr @ rest) = written closed rest"
proof (induction tr)
  case Nil
  show ?case by simp
next
  case (Cons x tr)
  then show ?case by (cases x) simp_all
qed

lemma written_deferred:
  "written [] (snd (runSession nw c fd fe ce) @ [Close c, Quit c])
     = written [] (snd (runSession nw c fd fe ce))"
  by (simp add: runSession_def split: option.split prod.split)

lemma quit_never_written:
  assumes "selectClient nw 0 servers None [] = (Some c, tr)"
  shows "written [] (snd (checkMailbox nw fd fe ce servers))
           = written [] (snd (runSession nw c fd fe ce))
       \<and> Quit k \<notin> set (written [] (snd (checkMailbox nw fd fe ce servers)))"
proof -
  have "written [] (snd (checkMailbox nw fd fe ce servers))
          = written [] (snd (runSession nw c fd fe ce) @ [Close c, Quit c])"
    using written_setup [OF selected_setup [OF assms]]
    by (simp add: checkMailbox_selected [OF assms])
  then have eq: "written [] (snd (checkMailbox nw fd fe ce servers))
          = written [] (snd (runSession nw c fd fe ce))"
    by (simp add: written_deferred)
  have "Quit k \<notin> set (written [] (snd (runSession nw c fd fe ce)))"
    by (simp add: runSession_def split: option.split prod.split)
  with eq show ?thesis by simp
qed

lemma quit_before_close_written:
  "written [] [Hello c d, Quit c, Close c] = [Hello c d, Quit c]
   \<and> written [] [Hello c d, Close c, Quit c] = [Hello c d]"
  by simp

text \<open>
  C2. The claim: on every exit path with a selected session the connection is released
  exactly once, the session-termination command is sent, and its errors are ignored. In
  the run below one candidate accepts, the session succeeds and the probe is answered
  with 250. The deferred function calls \<^verbatim>\<open>Close\<close> and then \<^verbatim>\<open>Quit\<close> on the client:
  the connection is closed once and the result stays \<^verbatim>\<open>nil\<close>, but the commands that
  reach the server are the handshake, the sender declaration and the probe only. The
  \<^verbatim>\<open>QUIT\<close> line is written on the closed connection and is never sent.
\<close>

theorem checkMailbox_quit_not_sent:
  "checkMailbox
       ((accepting (250, None))
          \<lparr>quit := (\<lambda>c. Some (Lib ''use of closed network connection''))\<rparr>)
       ''ironpeak.be'' ''test@ironpeak.be'' ''user@example.com'' [''mx1.example.com'']
     = (None,
        [Dial 0 ''mx1.example.com:25'', NewClient 0 ''mx1.example.com'',
         Hello 0 ''ironpeak.be'', Mail 0 ''test@ironpeak.be'',
         Cmd 0 ''RCPT TO:<user@example.com>'', ReadResponse 0, Close 0, Quit 0])
   \<and> written [] (snd (checkMailbox
         ((accepting (250, None))
            \<lparr>quit := (\<lambda>c. Some (Lib ''use of closed network connection''))\<rparr>)
         ''ironpeak.be'' ''test@ironpeak.be'' ''user@example.com'' [''mx1.example.com'']))
     = [Hello 0 ''ironpeak.be'', Mail 0 ''test@ironpeak.be'',
        Cmd 0 ''RCPT TO:<user@example.com>'']"
  by (simp add: checkMailbox_def accepting_def runSession_def replyResult_def deferred_def)

subsection \<open>Failed handshake and failed sender declaration\<close>

text \<open>
  C8. On the selected client, a failed \<^verbatim>\<open>Hello\<close> returns its cause wrapped as
  \<^verbatim>\<open>could not HELO smtp server\<close>, and the only calls after the setup are \<^verbatim>\<open>Hello\<close>,
  \<^verbatim>\<open>Close\<close> and \<^verbatim>\<open>Quit\<close>: no sender declaration, no probe. A failed \<^verbatim>\<open>Mail\<close> after
  a successful \<^verbatim>\<open>Hello\<close> returns its cause wrapped as
  \<^verbatim>\<open>could not MAIL FROM smtp server\<close>, and the calls are \<^verbatim>\<open>Hello\<close>, \<^verbatim>\<open>Mail\<close>,
  \<^verbatim>\<open>Close\<close> and \<^verbatim>\<open>Quit\<close>: no probe. Neither result is the error the function returns
  for an address the server rejects.
\<close>

theorem checkMailbox_handshake_sender:
  assumes "selectClient nw 0 servers None [] = (Some c, tr)"
  shows "(hello nw c fromDomain = Some cause \<longrightarrow>
            fst (checkMailbox nw fromDomain fromEmail checkEmail servers)
              = Some (Wrap cause ''could not HELO smtp server'')
          \<and> sessionCalls (snd (checkMailbox nw fromDomain fromEmail checkEmail servers))
              = [Hello c fromDomain, Close c, Quit c])
       \<and> (hello nw c fromDomain = None \<and> mail nw c fromEmail = Some cause \<longrightarrow>
            fst (checkMailbox nw fromDomain fromEmail checkEmail servers)
              = Some (Wrap cause ''could not MAIL FROM smtp server'')
          \<and> sessionCalls (snd (checkMailbox nw fromDomain fromEmail checkEmail servers))
              = [Hello c fromDomain, Mail c fromEmail, Close c, Quit c])
       \<and> (hello nw c fromDomain \<noteq> None \<or> mail nw c fromEmail \<noteq> None \<longrightarrow>
            fst (checkMailbox nw fromDomain fromEmail checkEmail servers)
              \<noteq> Some (New ''email does not seem to exist (or server blocks detection)''))"
proof -
  have tr_setup: "\<forall>x \<in> set tr. setupCall x"
    using selected_setup [OF assms] .
  have run: "checkMailbox nw fromDomain fromEmail checkEmail servers
       = (fst (runSession nw c fromDomain fromEmail checkEmail),
          tr @ snd (runSession nw c fromDomain fromEmail checkEmail) @ [Close c, Quit c])"
    using checkMailbox_selected [OF assms] .
  have calls: "sessionCalls (snd (checkMailbox nw fromDomain fromEmail checkEmail servers))
       = sessionCalls (snd (runSession nw c fromDomain fromEmail checkEmail) @ [Close c, Quit c])"
    using sessionCalls_setup [OF tr_setup] by (simp add: run)
  show ?thesis
    unfolding calls
    by (auto simp add: run runSession_def sessionCalls_def split: option.split)
qed

theorem checkMailbox_handshake_sender_witness:
  "selectClient ((accepting (250, None))\<lparr>hello := (\<lambda>c d. Some (Lib ''EOF''))\<rparr>) 0
       [''mx1.example.com''] None []
     = (Some 0, [Dial 0 ''mx1.example.com:25'', NewClient 0 ''mx1.example.com''])
   \<and> checkMailbox ((accepting (250, None))\<lparr>hello := (\<lambda>c d. Some (Lib ''EOF''))\<rparr>)
         ''ironpeak.be'' ''test@ironpeak.be'' ''user@example.com'' [''mx1.example.com'']
     = (Some (Wrap (Lib ''EOF'') ''could not HELO smtp server''),
        [Dial 0 ''mx1.example.com:25'', NewClient 0 ''mx1.example.com'',
         Hello 0 ''ironpeak.be'', Close 0, Quit 0])
   \<and> fst (checkMailbox ((accepting (250, None))\<lparr>hello := (\<lambda>c d. Some (Lib ''EOF''))\<rparr>)
         ''ironpeak.be'' ''test@ironpeak.be'' ''user@example.com'' [''mx1.example.com''])
     = Some (Wrap (Lib ''EOF'') ''could not HELO smtp server'')
   \<and> selectClient ((accepting (250, None))\<lparr>mail := (\<lambda>c a. Some (Lib ''553 denied''))\<rparr>) 0
       [''mx1.example.com''] None []
     = (Some 0, [Dial 0 ''mx1.example.com:25'', NewClient 0 ''mx1.example.com''])
   \<and> fst (checkMailbox ((accepting (250, None))\<lparr>mail := (\<lambda>c a. Some (Lib ''553 denied''))\<rparr>)
         ''ironpeak.be'' ''test@ironpeak.be'' ''user@example.com'' [''mx1.example.com''])
     = Some (Wrap (Lib ''553 denied'') ''could not MAIL FROM smtp server'')
   \<and> sessionCalls (snd (checkMailbox
         ((accepting (250, None))\<lparr>mail := (\<lambda>c a. Some (Lib ''553 denied''))\<rparr>)
         ''ironpeak.be'' ''test@ironpeak.be'' ''user@example.com'' [''mx1.example.com'']))
     = [Hello 0 ''ironpeak.be'', Mail 0 ''test@ironpeak.be'', Close 0, Quit 0]"
proof -
  have h1: "selectClient ((accepting (250, None))\<lparr>hello := (\<lambda>c d. Some (Lib ''EOF''))\<rparr>) 0
       [''mx1.example.com''] None []
     = (Some 0, [Dial 0 ''mx1.example.com:25'', NewClient 0 ''mx1.example.com''])"
    by (simp add: accepting_def)
  have h2: "selectClient ((accepting (250, None))\<lparr>mail := (\<lambda>c a. Some (Lib ''553 denied''))\<rparr>) 0
       [''mx1.example.com''] None []
     = (Some 0, [Dial 0 ''mx1.example.com:25'', NewClient 0 ''mx1.example.com''])"
    by (simp add: accepting_def)
  have hs1: "hello ((accepting (250, None))\<lparr>hello := (\<lambda>c d. Some (Lib ''EOF''))\<rparr>) 0
       ''ironpeak.be'' = Some (Lib ''EOF'')"
    by simp
  have hs2: "hello ((accepting (250, None))\<lparr>mail := (\<lambda>c a. Some (Lib ''553 denied''))\<rparr>) 0
       ''ironpeak.be'' = None
     \<and> mail ((accepting (250, None))\<lparr>mail := (\<lambda>c a. Some (Lib ''553 denied''))\<rparr>) 0
       ''test@ironpeak.be'' = Some (Lib ''553 denied'')"
    by (simp add: accepting_def)
  have full: "checkMailbox ((accepting (250, None))\<lparr>hello := (\<lambda>c d. Some (Lib ''EOF''))\<rparr>)
         ''ironpeak.be'' ''test@ironpeak.be'' ''user@example.com'' [''mx1.example.com'']
     = (Some (Wrap (Lib ''EOF'') ''could not HELO smtp server''),
        [Dial 0 ''mx1.example.com:25'', NewClient 0 ''mx1.example.com'',
         Hello 0 ''ironpeak.be'', Close 0, Quit 0])"
    by (simp add: checkMailbox_def accepting_def runSession_def deferred_def)
  show ?thesis
    using h1 h2 hs1 hs2 full
      checkMailbox_handshake_sender
        [OF h1, where fromDomain = "''ironpeak.be''" and fromEmail = "''test@ironpeak.be''"
          and checkEmail = "''user@example.com''" and cause = "Lib ''EOF''"]
      checkMailbox_handshake_sender
        [OF h2, where fromDomain = "''ironpeak.be''" and fromEmail = "''test@ironpeak.be''"
          and checkEmail = "''user@example.com''" and cause = "Lib ''553 denied''"]
    by blast
qed

subsection \<open>The reply to the probe\<close>

text \<open>
  C9. When the handshake, the sender declaration and the sending of the probe have
  succeeded and reading the reply returns an error with none of the codes 554, 550, 250
  (a read that fails on the connection delivers no reply code: the code is 0), the
  function returns that error wrapped as \<^verbatim>\<open>smtp response error\<close>. This result is none
  of the three results a recognised reply code gives: success, the error for a rejected
  address, the error for a blocked sender.
\<close>

theorem checkMailbox_read_error:
  assumes "selectClient nw 0 servers None [] = (Some c, tr)"
    and "hello nw c fromDomain = None"
    and "mail nw c fromEmail = None"
    and "cmd nw c (''RCPT TO:<'' @ checkEmail @ ''>'') = None"
    and "readResponse nw c = (code, Some cause)"
    and "code \<noteq> 554" and "code \<noteq> 550" and "code \<noteq> 250"
  shows "fst (checkMailbox nw fromDomain fromEmail checkEmail servers)
           = Some (Wrap cause ''smtp response error'')
       \<and> fst (checkMailbox nw fromDomain fromEmail checkEmail servers) \<noteq> None
       \<and> fst (checkMailbox nw fromDomain fromEmail checkEmail servers)
           \<noteq> Some (New ''email does not seem to exist (or server blocks detection)'')
       \<and> fst (checkMailbox nw fromDomain fromEmail checkEmail servers)
           \<noteq> Some (New ''appears our IP is blacklisted'')"
proof -
  have "fst (runSession nw c fromDomain fromEmail checkEmail)
          = Some (Wrap cause ''smtp response error'')"
    using assms(2-8) by (simp add: runSession_def replyResult_def)
  then show ?thesis
    by (simp add: checkMailbox_selected [OF assms(1)])
qed

theorem checkMailbox_read_error_witness:
  "selectClient (accepting (0, Some (Lib ''connection reset by peer''))) 0
       [''mx1.example.com''] None []
     = (Some 0, [Dial 0 ''mx1.example.com:25'', NewClient 0 ''mx1.example.com''])
   \<and> readResponse (accepting (0, Some (Lib ''connection reset by peer''))) 0
     = (0, Some (Lib ''connection reset by peer''))
   \<and> fst (checkMailbox (accepting (0, Some (Lib ''connection reset by peer'')))
         ''ironpeak.be'' ''test@ironpeak.be'' ''user@example.com'' [''mx1.example.com''])
     = Some (Wrap (Lib ''connection reset by peer'') ''smtp response error'')"
proof -
  have h1: "selectClient (accepting (0, Some (Lib ''connection reset by peer''))) 0
       [''mx1.example.com''] None []
     = (Some 0, [Dial 0 ''mx1.example.com:25'', NewClient 0 ''mx1.example.com''])"
    by (simp add: accepting_def)
  have h2: "hello (accepting (0, Some (Lib ''connection reset by peer''))) 0 ''ironpeak.be'' = None"
    by (simp add: accepting_def)
  have h3: "mail (accepting (0, Some (Lib ''connection reset by peer''))) 0 ''test@ironpeak.be''
      = None"
    by (simp add: accepting_def)
  have h4: "cmd (accepting (0, Some (Lib ''connection reset by peer''))) 0
      (''RCPT TO:<'' @ ''user@example.com'' @ ''>'') = None"
    by (simp add: accepting_def)
  have h5: "readResponse (accepting (0, Some (Lib ''connection reset by peer''))) 0
     = (0, Some (Lib ''connection reset by peer''))"
    by (simp add: accepting_def)
  have h6: "(0::int) \<noteq> 554" and h7: "(0::int) \<noteq> 550" and h8: "(0::int) \<noteq> 250"
    by simp_all
  show ?thesis
    using h1 h5 checkMailbox_read_error [OF h1 h2 h3 h4 h5 h6 h7 h8]
    by blast
qed

text \<open>
  C3, as stated: every reply code other than 250, 550 and 554 is answered without an
  error. It fails: \<^verbatim>\<open>ReadResponse(25)\<close> hands a reply outside 250 to 259 back with an
  error next to the code, and for the code 450 the function returns that error wrapped.
\<close>

theorem checkMailbox_other_code_counterexample:
  "readResponse (accepting (450, Some (Lib ''450 mailbox busy''))) 0
     = (450, Some (Lib ''450 mailbox busy''))
   \<and> fst (checkMailbox (accepting (450, Some (Lib ''450 mailbox busy''))) ''ironpeak.be''
         ''test@ironpeak.be'' ''user@example.com'' [''mx1.example.com''])
     = Some (Wrap (Lib ''450 mailbox busy'') ''smtp response error'')"
  by (simp add: checkMailbox_def accepting_def runSession_def replyResult_def deferred_def)

text \<open>
  C3, amended: the result is a total function of the code and the error that the read
  returns. The code 250 gives success, 550 the error for a rejected address and 554 the
  error for a blocked sender, whatever error the read returned with them; any other code
  gives success when the read returned no error, and the read's error wrapped as
  \<^verbatim>\<open>smtp response error\<close> when it returned one.
\<close>

theorem checkMailbox_reply_table:
  assumes "selectClient nw 0 servers None [] = (Some c, tr)"
    and "hello nw c fromDomain = None"
    and "mail nw c fromEmail = None"
    and "cmd nw c (''RCPT TO:<'' @ checkEmail @ ''>'') = None"
    and "readResponse nw c = (code, err)"
  shows "fst (checkMailbox nw fromDomain fromEmail checkEmail servers) =
           (if code = 250 then None
            else if code = 550 then
              Some (New ''email does not seem to exist (or server blocks detection)'')
            else if code = 554 then Some (New ''appears our IP is blacklisted'')
            else (case err of
                    None \<Rightarrow> None
                  | Some cause \<Rightarrow> Some (Wrap cause ''smtp response error'')))"
proof -
  have "fst (runSession nw c fromDomain fromEmail checkEmail) = replyResult code err"
    using assms(2-5) by (simp add: runSession_def)
  then show ?thesis
    by (simp add: checkMailbox_selected [OF assms(1)] replyResult_def split: option.split)
qed

theorem checkMailbox_reply_table_witness:
  "selectClient (accepting (550, Some (Lib ''550 no such user''))) 0
       [''mx1.example.com''] None []
     = (Some 0, [Dial 0 ''mx1.example.com:25'', NewClient 0 ''mx1.example.com''])
   \<and> readResponse (accepting (550, Some (Lib ''550 no such user''))) 0
     = (550, Some (Lib ''550 no such user''))
   \<and> fst (checkMailbox (accepting (550, Some (Lib ''550 no such user'')))
         ''ironpeak.be'' ''test@ironpeak.be'' ''user@example.com'' [''mx1.example.com''])
     = Some (New ''email does not seem to exist (or server blocks detection)'')"
proof -
  have h1: "selectClient (accepting (550, Some (Lib ''550 no such user''))) 0
       [''mx1.example.com''] None []
     = (Some 0, [Dial 0 ''mx1.example.com:25'', NewClient 0 ''mx1.example.com''])"
    by (simp add: accepting_def)
  have h2: "hello (accepting (550, Some (Lib ''550 no such user''))) 0 ''ironpeak.be'' = None"
    by (simp add: accepting_def)
  have h3: "mail (accepting (550, Some (Lib ''550 no such user''))) 0 ''test@ironpeak.be'' = None"
    by (simp add: accepting_def)
  have h4: "cmd (accepting (550, Some (Lib ''550 no such user''))) 0
      (''RCPT TO:<'' @ ''user@example.com'' @ ''>'') = None"
    by (simp add: accepting_def)
  have h5: "readResponse (accepting (550, Some (Lib ''550 no such user''))) 0
     = (550, Some (Lib ''550 no such user''))"
    by (simp add: accepting_def)
  show ?thesis
    using h1 h5 checkMailbox_reply_table [OF h1 h2 h3 h4 h5]
    by simp
qed

subsection \<open>Which client the loop selects\<close>

text \<open>
  C1. The claim: when the first candidates refuse the connection and the next one yields
  a session, that session is used, the loop stops there, and no other connection stays
  open. In the run below the first candidate refuses, the second accepts and yields a
  session, and so does the third. The loop goes on after the second candidate: it dials
  the third one too, and the commands go to the third client (connection 2). \<^verbatim>\<open>Close\<close>
  is called on connection 2 only, so connection 1 stays open.
\<close>

theorem checkMailbox_later_client_used:
  "checkMailbox
       ((accepting (250, None))
          \<lparr>dial := (\<lambda>i a. if i = 0 then Some (Lib ''connection refused'') else None)\<rparr>)
       ''ironpeak.be'' ''test@ironpeak.be'' ''user@example.com''
       [''mx1.example.com'', ''mx2.example.com'', ''mx3.example.com'']
     = (None,
        [Dial 0 ''mx1.example.com:25'',
         Dial 1 ''mx2.example.com:25'', NewClient 1 ''mx2.example.com'',
         Dial 2 ''mx3.example.com:25'', NewClient 2 ''mx3.example.com'',
         Hello 2 ''ironpeak.be'', Mail 2 ''test@ironpeak.be'',
         Cmd 2 ''RCPT TO:<user@example.com>'', ReadResponse 2, Close 2, Quit 2])
   \<and> closes (snd (checkMailbox
         ((accepting (250, None))
            \<lparr>dial := (\<lambda>i a. if i = 0 then Some (Lib ''connection refused'') else None)\<rparr>)
         ''ironpeak.be'' ''test@ironpeak.be'' ''user@example.com''
         [''mx1.example.com'', ''mx2.example.com'', ''mx3.example.com''])) = [2]"
  by (simp add: checkMailbox_def accepting_def runSession_def replyResult_def deferred_def)

text \<open>
  C4. The claim: the function fails with \<^verbatim>\<open>no working mail servers could be found\<close>
  exactly when no candidate yields a usable session. In the run below the first candidate
  yields a session; the second accepts the connection and fails the session setup, which
  sets the client variable back to nil. The function returns the error although a
  usable session was there, and sends no command on it.
\<close>

theorem checkMailbox_session_lost:
  "selectClient
       ((accepting (250, None))\<lparr>newClient := (\<lambda>i h. if i = 1 then Some (Lib ''EOF'') else None)\<rparr>)
       0 [''mx1.example.com''] None []
     = (Some 0, [Dial 0 ''mx1.example.com:25'', NewClient 0 ''mx1.example.com''])
   \<and> checkMailbox
       ((accepting (250, None))\<lparr>newClient := (\<lambda>i h. if i = 1 then Some (Lib ''EOF'') else None)\<rparr>)
       ''ironpeak.be'' ''test@ironpeak.be'' ''user@example.com''
       [''mx1.example.com'', ''mx2.example.com'']
     = (Some (New ''no working mail servers could be found''),
        [Dial 0 ''mx1.example.com:25'', NewClient 0 ''mx1.example.com'',
         Dial 1 ''mx2.example.com:25'', NewClient 1 ''mx2.example.com''])"
  by (simp add: checkMailbox_def accepting_def)

end
